theory Spec2Isabelle
  imports Complex_Main
begin

section \<open>Values shared by the pages\<close>

text \<open>
  A JavaScript \<^verbatim>\<open>Date\<close> is compared through its time value (milliseconds since the
  epoch), so a date is an integer. \<^verbatim>\<open>isBefore\<close> of date-fns is the strict order on time
  values. A state variable declared \<^verbatim>\<open>useState<Date>()\<close> is \<open>None\<close> while
  \<^verbatim>\<open>undefined\<close>; a \<^verbatim>\<open>Date\<close> object is always truthy, so \<^verbatim>\<open>!checkInDate\<close> is
  \<open>checkInDate = None\<close>.
\<close>

type_synonym date = int

definition isBefore :: "date \<Rightarrow> date \<Rightarrow> bool" where
  "isBefore d d' = (d < d')"

text \<open>
  An optional identifier (\<^verbatim>\<open>useState<number>()\<close>) is \<open>None\<close> while undefined.
  JavaScript truthiness of such a value: undefined and \<open>0\<close> are falsy.
\<close>

fun truthy :: "int option \<Rightarrow> bool" where
  "truthy None = False"
| "truthy (Some n) = (n \<noteq> 0)"

section \<open>The new-enquiry calendar page (\<^verbatim>\<open>NewEnquiryCalendar\<close>)\<close>

subsection \<open>Data\<close>

text \<open>The fields of a room record that the page reads.\<close>

record Room =
  room_id :: int
  room_roomNumber :: string
  room_roomType :: string
  room_pricePerNight :: string

text \<open>
  A number after \<^verbatim>\<open>z.coerce.number()\<close> has applied \<^verbatim>\<open>Number(input)\<close>: not-a-number, or a
  finite value (every finite double is a rational). The inputs of the form yield no
  infinite value.
\<close>

datatype jsnumber = NaN | Num rat

text \<open>The values of the guest form (\<^verbatim>\<open>EnquiryFormData\<close>); an optional field is an option.\<close>

record EnquiryFormData =
  guestName :: string
  guestPhone :: string
  guestEmail :: "string option"
  numberOfGuests :: jsnumber
  priceQuoted :: "jsnumber option"
  advanceAmount :: "jsnumber option"
  specialRequests :: "string option"

text \<open>
  The body that \<^verbatim>\<open>onSubmit\<close> posts to \<^verbatim>\<open>/api/enquiries\<close>. The two amounts are sent as
  the decimal strings of the numbers kept here; \<open>None\<close> is \<^verbatim>\<open>null\<close>.
\<close>

record enquiryData =
  enq_propertyId :: int
  enq_guestName :: string
  enq_guestPhone :: string
  enq_guestEmail :: "string option"
  enq_checkInDate :: date
  enq_checkOutDate :: date
  enq_roomId :: int
  enq_numberOfGuests :: jsnumber
  enq_priceQuoted :: "jsnumber option"
  enq_advanceAmount :: "jsnumber option"
  enq_specialRequests :: "string option"
  enq_status :: string

text \<open>
  The toasts of the page, named by their titles: \<^verbatim>\<open>Invalid Date\<close>,
  \<^verbatim>\<open>No Rooms Available\<close>, \<^verbatim>\<open>Rooms Found!\<close> (with \<^verbatim>\<open>rooms.length\<close>), \<^verbatim>\<open>Error\<close> of the
  availability check, \<^verbatim>\<open>Missing Information\<close>, \<^verbatim>\<open>Enquiry Created!\<close>, and \<^verbatim>\<open>Error\<close> of
  the creation (with its description).
\<close>

datatype toast =
    InvalidDate
  | NoRoomsAvailable
  | RoomsFound nat
  | AvailabilityError
  | MissingInformation
  | EnquiryCreated
  | CreateError string

text \<open>
  What a handler does besides setting state, in the order it does it. \<open>Fetch p ci co\<close>
  is the request \<^verbatim>\<open>GET /api/rooms/availability?propertyId=p&checkIn=ci&checkOut=co\<close>; the
  property is an option because the non-null assertion \<^verbatim>\<open>selectedPropertyId!\<close> checks
  nothing when the code runs. \<open>Mutate\<close> is \<^verbatim>\<open>createEnquiryMutation.mutate\<close>, the request
  \<^verbatim>\<open>POST /api/enquiries\<close>.
\<close>

datatype effect =
    Toast toast
  | Fetch "int option" date date
  | Mutate enquiryData
  | InvalidateQueries
  | FormReset

text \<open>The state variables of the component, one field per \<^verbatim>\<open>useState\<close>.\<close>

record state =
  selectedPropertyId :: "int option"
  currentDate :: date
  checkInDate :: "date option"
  checkOutDate :: "date option"
  availableRooms :: "Room list"
  selectedRoomId :: "int option"
  loadingRooms :: bool
  showGuestForm :: bool

definition initial :: "date \<Rightarrow> state" where
  "initial now =
     \<lparr>selectedPropertyId = None, currentDate = now, checkInDate = None,
      checkOutDate = None, availableRooms = [], selectedRoomId = None,
      loadingRooms = False, showGuestForm = False\<rparr>"

subsection \<open>Handlers\<close>

text \<open>
  \<^verbatim>\<open>checkAvailability\<close> up to its first \<^verbatim>\<open>await\<close>: it raises the loading flag and sends
  the request. This part runs inside the click that completes the range.
\<close>

definition checkAvailability :: "int option \<Rightarrow> date \<Rightarrow> date \<Rightarrow> state \<Rightarrow> state \<times> effect list" where
  "checkAvailability propertyId checkIn checkOut s =
     (s\<lparr>loadingRooms := True\<rparr>, [Fetch propertyId checkIn checkOut])"

text \<open>
  The rest of \<^verbatim>\<open>checkAvailability\<close>, run when the request settles: with the rooms of a
  successful response, or through the \<^verbatim>\<open>catch\<close> block when the response is not ok or
  the request fails; the \<^verbatim>\<open>finally\<close> block lowers the loading flag in both cases.
\<close>

datatype response = RoomsOk "Room list" | Failed

definition checkAvailability_settled :: "response \<Rightarrow> state \<Rightarrow> state \<times> effect list" where
  "checkAvailability_settled r s =
     (case r of
        RoomsOk rooms \<Rightarrow>
          (s\<lparr>availableRooms := rooms, loadingRooms := False\<rparr>,
           [Toast (if length rooms = 0 then NoRoomsAvailable else RoomsFound (length rooms))])
      | Failed \<Rightarrow>
          (s\<lparr>availableRooms := [], loadingRooms := False\<rparr>, [Toast AvailabilityError]))"

text \<open>
  \<^verbatim>\<open>handleDateClick\<close>; \<open>today\<close> is \<^verbatim>\<open>startOfDay(new Date())\<close>, read from the clock at the
  click.
\<close>

definition handleDateClick :: "date \<Rightarrow> date \<Rightarrow> state \<Rightarrow> state \<times> effect list" where
  "handleDateClick today date s =
     (if isBefore date today then (s, [])
      else case checkInDate s of
        None \<Rightarrow>
          (s\<lparr>checkInDate := Some date, checkOutDate := None, availableRooms := [],
             selectedRoomId := None, showGuestForm := False\<rparr>, [])
      | Some ci \<Rightarrow>
          (case checkOutDate s of
             None \<Rightarrow>
               if date \<le> ci then (s, [Toast InvalidDate])
               else checkAvailability (selectedPropertyId s) ci date (s\<lparr>checkOutDate := Some date\<rparr>)
           | Some co \<Rightarrow>
               (s\<lparr>checkInDate := Some date, checkOutDate := None, availableRooms := [],
                  selectedRoomId := None, showGuestForm := False\<rparr>, [])))"

definition handleRoomSelect :: "int \<Rightarrow> state \<Rightarrow> state" where
  "handleRoomSelect roomId s = s\<lparr>selectedRoomId := Some roomId, showGuestForm := True\<rparr>"

text \<open>\<^verbatim>\<open>x || null\<close> on an optional string: undefined and the empty string become null.\<close>

fun or_null :: "string option \<Rightarrow> string option" where
  "or_null None = None"
| "or_null (Some x) = (if x = [] then None else Some x)"

definition onSubmit :: "EnquiryFormData \<Rightarrow> state \<Rightarrow> state \<times> effect list" where
  "onSubmit d s =
     (case (selectedPropertyId s, checkInDate s, checkOutDate s, selectedRoomId s) of
        (Some p, Some ci, Some co, Some r) \<Rightarrow>
          if \<not> truthy (Some p) \<or> \<not> truthy (Some r) then (s, [Toast MissingInformation])
          else
            (s, [Mutate \<lparr>enq_propertyId = p, enq_guestName = guestName d,
                   enq_guestPhone = guestPhone d, enq_guestEmail = or_null (guestEmail d),
                   enq_checkInDate = ci, enq_checkOutDate = co, enq_roomId = r,
                   enq_numberOfGuests = numberOfGuests d, enq_priceQuoted = priceQuoted d,
                   enq_advanceAmount = advanceAmount d,
                   enq_specialRequests = or_null (specialRequests d),
                   enq_status = ''new''\<rparr>])
      | _ \<Rightarrow> (s, [Toast MissingInformation]))"

text \<open>The callbacks of \<^verbatim>\<open>createEnquiryMutation\<close>.\<close>

definition onSuccess :: "state \<Rightarrow> state \<times> effect list" where
  "onSuccess s =
     (s\<lparr>checkInDate := None, checkOutDate := None, availableRooms := [],
        selectedRoomId := None, showGuestForm := False\<rparr>,
      [InvalidateQueries, Toast EnquiryCreated, FormReset])"

definition onError :: "string option \<Rightarrow> state \<Rightarrow> state \<times> effect list" where
  "onError message s =
     (s, [Toast (CreateError (case or_null message of
                                None \<Rightarrow> ''Failed to create enquiry'' | Some m \<Rightarrow> m))])"

text \<open>
  \<^verbatim>\<open>onValueChange\<close> of the property select. Every item's value is
  \<^verbatim>\<open>property.id.toString()\<close>, and \<^verbatim>\<open>parseInt\<close> reads the identifier back, so the
  argument is the identifier.
\<close>

definition onValueChange :: "int \<Rightarrow> state \<Rightarrow> state" where
  "onValueChange v s =
     s\<lparr>selectedPropertyId := Some v, checkInDate := None, checkOutDate := None,
       availableRooms := [], selectedRoomId := None, showGuestForm := False\<rparr>"

subsection \<open>Validation of the guest form (\<^verbatim>\<open>enquiryFormSchema\<close>)\<close>

text \<open>
  The checks of the zod schema, on the coerced values. \<^verbatim>\<open>z.string().min(n)\<close> compares
  the length of the string; \<^verbatim>\<open>z.number()\<close> refuses not-a-number, \<^verbatim>\<open>.int()\<close> asks for a
  whole number and \<^verbatim>\<open>.min(m)\<close> for a value of at least \<open>m\<close>.
\<close>

definition string_min :: "nat \<Rightarrow> string \<Rightarrow> bool" where
  "string_min n x = (n \<le> length x)"

fun number_int :: "jsnumber \<Rightarrow> bool" where
  "number_int NaN = False"
| "number_int (Num x) = (of_int \<lfloor>x\<rfloor> = x)"

fun number_min :: "rat \<Rightarrow> jsnumber \<Rightarrow> bool" where
  "number_min m NaN = False"
| "number_min m (Num x) = (m \<le> x)"

text \<open>
  The schema accepts the form values or not. The test behind \<^verbatim>\<open>.email()\<close> belongs to
  the zod library and is the parameter \<open>email\<close>. \<^verbatim>\<open>.optional().or(z.literal(""))\<close> lets an
  undefined and an empty address through; \<^verbatim>\<open>specialRequests\<close> is any optional string.
\<close>

definition enquiryFormSchema :: "(string \<Rightarrow> bool) \<Rightarrow> EnquiryFormData \<Rightarrow> bool" where
  "enquiryFormSchema email d =
     (string_min 2 (guestName d) \<and>
      string_min 10 (guestPhone d) \<and>
      (case guestEmail d of None \<Rightarrow> True | Some e \<Rightarrow> email e \<or> e = []) \<and>
      number_int (numberOfGuests d) \<and> number_min 1 (numberOfGuests d) \<and>
      (case priceQuoted d of None \<Rightarrow> True | Some x \<Rightarrow> number_min 0 x) \<and>
      (case advanceAmount d of None \<Rightarrow> True | Some x \<Rightarrow> number_min 0 x))"

text \<open>
  The wording of the specification for the phone number, to compare with the schema:
  the number of decimal digits in the string.
\<close>

definition spec_digit_count :: "string \<Rightarrow> nat" where
  "spec_digit_count x = length (filter (\<lambda>c. c \<in> set ''0123456789'') x)"

subsection \<open>The selection states of the specification\<close>

text \<open>
  The component has no enumeration of states; the specification names five. They are
  read off the state variables with the conditions the page itself uses for its
  captions and panels: no check-in, a check-in without a check-out, both dates, and then
  the guest form shown or a room chosen.
\<close>

datatype SelectionState = NoCheckIn | AwaitingCheckOut | RangeComplete | RoomChosen | GuestFormOpen

definition spec_selectionState :: "state \<Rightarrow> SelectionState" where
  "spec_selectionState s =
     (case checkInDate s of
        None \<Rightarrow> NoCheckIn
      | Some ci \<Rightarrow>
          (case checkOutDate s of
             None \<Rightarrow> AwaitingCheckOut
           | Some co \<Rightarrow>
               if showGuestForm s then GuestFormOpen
               else if selectedRoomId s = None then RangeComplete else RoomChosen))"

text \<open>The invariant of the date range: a check-out that is present is later than the check-in.\<close>

definition DateRange_inv :: "state \<Rightarrow> bool" where
  "DateRange_inv s =
     (case checkInDate s of
        None \<Rightarrow> True
      | Some ci \<Rightarrow> (case checkOutDate s of None \<Rightarrow> True | Some co \<Rightarrow> ci < co))"

subsection \<open>The page as a transition system\<close>

text \<open>
  The browser runs one handler at a time, so a session is a sequence of events. Besides
  the component's state the system keeps the availability requests that have not settled
  yet, the number of creation requests that have not settled, and everything the handlers
  have done so far.
\<close>

record sys =
  ui :: state
  inflight :: "(int option \<times> date \<times> date) list"
  pendingMutations :: nat
  history :: "effect list"

definition start :: "date \<Rightarrow> sys" where
  "start now = \<lparr>ui = initial now, inflight = [], pendingMutations = 0, history = []\<rparr>"

fun request_of :: "effect \<Rightarrow> (int option \<times> date \<times> date) option" where
  "request_of (Fetch p ci co) = Some (p, ci, co)"
| "request_of _ = None"

fun is_Mutate :: "effect \<Rightarrow> bool" where
  "is_Mutate (Mutate x) = True"
| "is_Mutate _ = False"

text \<open>A handler's result enters the system: new state, requests sent, effects recorded.\<close>

definition commit :: "state \<times> effect list \<Rightarrow> sys \<Rightarrow> sys" where
  "commit r y =
     y\<lparr>ui := fst r,
       inflight := inflight y @ List.map_filter request_of (snd r),
       pendingMutations := pendingMutations y + length (filter is_Mutate (snd r)),
       history := history y @ snd r\<rparr>"

text \<open>
  The events, and where the page offers them. The property select is always there. The
  calendar card, with its month buttons and day buttons, is rendered under
  \<^verbatim>\<open>selectedPropertyId &&\<close>; the room buttons under
  \<^verbatim>\<open>checkOutDate && availableRooms.length > 0\<close>, one per available room; the guest form under
  \<^verbatim>\<open>showGuestForm &&\<close>, and \<^verbatim>\<open>form.handleSubmit\<close> calls \<^verbatim>\<open>onSubmit\<close> only with values the
  schema accepts. A request that is in flight settles at any later moment, in any order.
  A day button is offered for any day here, although the page disables the past days of
  the month it shows, and the submit button at any time, although the page disables it
  while a creation is pending: the system has at least the runs of the page.
\<close>

datatype event =
    PropertyChange int
  | MonthNav date
  | DateClick date date
  | RoomSelect int
  | Submit EnquiryFormData
  | AvailabilitySettled nat response
  | MutationSuccess
  | MutationError "string option"

definition calendarRendered :: "state \<Rightarrow> bool" where
  "calendarRendered s = truthy (selectedPropertyId s)"

definition roomButtonRendered :: "int \<Rightarrow> state \<Rightarrow> bool" where
  "roomButtonRendered r s =
     (checkOutDate s \<noteq> None \<and> 0 < length (availableRooms s) \<and>
      r \<in> set (map room_id (availableRooms s)))"

fun step :: "(string \<Rightarrow> bool) \<Rightarrow> event \<Rightarrow> sys \<Rightarrow> sys option" where
  "step email (PropertyChange v) y = Some (y\<lparr>ui := onValueChange v (ui y)\<rparr>)"
| "step email (MonthNav d) y =
     (if calendarRendered (ui y) then Some (y\<lparr>ui := (ui y)\<lparr>currentDate := d\<rparr>\<rparr>) else None)"
| "step email (DateClick today d) y =
     (if calendarRendered (ui y) then Some (commit (handleDateClick today d (ui y)) y) else None)"
| "step email (RoomSelect r) y =
     (if roomButtonRendered r (ui y) then Some (y\<lparr>ui := handleRoomSelect r (ui y)\<rparr>) else None)"
| "step email (Submit d) y =
     (if showGuestForm (ui y) \<and> enquiryFormSchema email d
      then Some (commit (onSubmit d (ui y)) y) else None)"
| "step email (AvailabilitySettled i r) y =
     (if i < length (inflight y)
      then Some (commit (checkAvailability_settled r (ui y))
                   (y\<lparr>inflight := take i (inflight y) @ drop (Suc i) (inflight y)\<rparr>))
      else None)"
| "step email MutationSuccess y =
     (if 0 < pendingMutations y
      then Some (commit (onSuccess (ui y)) (y\<lparr>pendingMutations := pendingMutations y - 1\<rparr>))
      else None)"
| "step email (MutationError m) y =
     (if 0 < pendingMutations y
      then Some (commit (onError m (ui y)) (y\<lparr>pendingMutations := pendingMutations y - 1\<rparr>))
      else None)"

fun run :: "(string \<Rightarrow> bool) \<Rightarrow> event list \<Rightarrow> sys \<Rightarrow> sys option" where
  "run email [] y = Some y"
| "run email (e # es) y = (case step email e y of None \<Rightarrow> None | Some y' \<Rightarrow> run email es y')"

section \<open>The room calendar page (\<^verbatim>\<open>RoomCalendar\<close>)\<close>

text \<open>
  The fields of a booking that the page reads. The two dates are the time values of
  \<^verbatim>\<open>new Date(booking.checkInDate)\<close> and \<^verbatim>\<open>new Date(booking.checkOutDate)\<close>; a booking
  without a room has \<open>None\<close> for its room.
\<close>

record Booking =
  booking_propertyId :: int
  booking_roomId :: "int option"
  booking_status :: string
  booking_checkInDate :: date
  booking_checkOutDate :: date

definition propertyBookings :: "int option \<Rightarrow> Booking list \<Rightarrow> Booking list" where
  "propertyBookings selected bookings =
     (if \<not> truthy selected then []
      else filter (\<lambda>booking. Some (booking_propertyId booking) = selected \<and>
                    (booking_status booking = ''confirmed'' \<or>
                     booking_status booking = ''checked-in'')) bookings)"

text \<open>\<^verbatim>\<open>isRoomOccupied\<close>, with the list of bookings it closes over as its first argument.\<close>

definition isRoomOccupied :: "Booking list \<Rightarrow> int \<Rightarrow> date \<Rightarrow> bool" where
  "isRoomOccupied pbs roomId d =
     list_ex (\<lambda>booking.
        if booking_roomId booking \<noteq> Some roomId then False
        else booking_checkInDate booking \<le> d \<and> d < booking_checkOutDate booking) pbs"

text \<open>Midnight (UTC) of the \<open>n\<close>-th of May 2024 as a time value, for the examples.\<close>

definition may2024 :: "int \<Rightarrow> date" where
  "may2024 n = 1714521600000 + (n - 1) * 86400000"

section \<open>Date clicks\<close>

text \<open>
  C4. A click on a day earlier than the start of the current day returns the state as
  it was and does nothing else, whatever the state: no field changes, no request is
  sent and no toast is shown.
\<close>

theorem past_click_ignored:
  "d < today \<Longrightarrow> handleDateClick today d s = (s, [])"
  by (simp add: handleDateClick_def isBefore_def)

theorem past_click_ignored_witness:
  "(9::int) < 10 \<and>
   handleDateClick 10 9 ((initial 0)\<lparr>selectedPropertyId := Some 1, checkInDate := Some 12\<rparr>)
     = ((initial 0)\<lparr>selectedPropertyId := Some 1, checkInDate := Some 12\<rparr>, [])"
  using past_click_ignored [of 9 10 "(initial 0)\<lparr>selectedPropertyId := Some 1, checkInDate := Some 12\<rparr>"]
  by simp

text \<open>
  C1. Start with a property selected and no check-in. For days \<open>d1\<close> and \<open>d2\<close> with
  \<open>today \<le> d1\<close> and \<open>d1 < d2\<close>, the click on \<open>d1\<close> leads to AwaitingCheckOut and the click
  on \<open>d2\<close> to RangeComplete, with check-in \<open>d1\<close> and check-out \<open>d2\<close>; all that the two
  clicks do besides is one availability request, for the selected property, \<open>d1\<close> and
  \<open>d2\<close>.
\<close>

theorem two_clicks_complete_range:
  assumes "selectedPropertyId s = Some p" and "checkInDate s = None"
    and "today \<le> d1" and "d1 < d2"
  shows "case handleDateClick today d1 s of (s1, e1) \<Rightarrow>
           (case handleDateClick today d2 s1 of (s2, e2) \<Rightarrow>
              spec_selectionState s1 = AwaitingCheckOut \<and>
              spec_selectionState s2 = RangeComplete \<and>
              checkInDate s2 = Some d1 \<and> checkOutDate s2 = Some d2 \<and>
              e1 @ e2 = [Fetch (Some p) d1 d2])"
  using assms
  by (simp add: handleDateClick_def isBefore_def checkAvailability_def spec_selectionState_def)

theorem two_clicks_complete_range_witness:
  "selectedPropertyId ((initial 0)\<lparr>selectedPropertyId := Some 1\<rparr>) = Some 1 \<and>
   checkInDate ((initial 0)\<lparr>selectedPropertyId := Some 1\<rparr>) = None \<and>
   (5::int) \<le> 10 \<and> (10::int) < 13 \<and>
   (case handleDateClick 5 10 ((initial 0)\<lparr>selectedPropertyId := Some 1\<rparr>) of (s1, e1) \<Rightarrow>
      (case handleDateClick 5 13 s1 of (s2, e2) \<Rightarrow>
         spec_selectionState s1 = AwaitingCheckOut \<and>
         spec_selectionState s2 = RangeComplete \<and>
         checkInDate s2 = Some 10 \<and> checkOutDate s2 = Some 13 \<and>
         e1 @ e2 = [Fetch (Some 1) 10 13]))"
  using two_clicks_complete_range [of "(initial 0)\<lparr>selectedPropertyId := Some 1\<rparr>" 1 5 10 13]
  by (simp add: initial_def)

text \<open>
  C5. While a check-out is awaited, a click on a day \<open>d2\<close> that is not later than the
  check-in changes no state variable (the check-in stays, no transition) and sends no
  request. All it does is show the invalid-date toast; when \<open>d2\<close> is moreover a past
  day the click is ignored like every past click and not even the toast is shown.
\<close>

theorem invalid_checkout_rejected:
  assumes "checkInDate s = Some ci" and "checkOutDate s = None" and "d2 \<le> ci"
  shows "handleDateClick today d2 s = (s, if d2 < today then [] else [Toast InvalidDate])"
  using assms by (simp add: handleDateClick_def isBefore_def)

theorem invalid_checkout_rejected_witness:
  "checkInDate ((initial 0)\<lparr>selectedPropertyId := Some 1, checkInDate := Some 12\<rparr>) = Some 12 \<and>
   checkOutDate ((initial 0)\<lparr>selectedPropertyId := Some 1, checkInDate := Some 12\<rparr>) = None \<and>
   (11::int) \<le> 12 \<and>
   handleDateClick 10 11 ((initial 0)\<lparr>selectedPropertyId := Some 1, checkInDate := Some 12\<rparr>)
     = ((initial 0)\<lparr>selectedPropertyId := Some 1, checkInDate := Some 12\<rparr>, [Toast InvalidDate])"
  using invalid_checkout_rejected
    [of "(initial 0)\<lparr>selectedPropertyId := Some 1, checkInDate := Some 12\<rparr>" 12 11 10]
  by (simp add: initial_def)

text \<open>
  C6. Once both dates are set (RangeComplete or a later state), a click on a day \<open>d\<close>
  with \<open>today \<le> d\<close> leads to AwaitingCheckOut: the check-in becomes \<open>d\<close>, the check-out
  is absent, the room list is empty, no room is selected and the guest form is closed.
  Nothing else changes and nothing else is done.
\<close>

theorem third_click_restarts:
  assumes "checkInDate s = Some ci" and "checkOutDate s = Some co" and "today \<le> d"
  shows "handleDateClick today d s =
           (s\<lparr>checkInDate := Some d, checkOutDate := None, availableRooms := [],
              selectedRoomId := None, showGuestForm := False\<rparr>, []) \<and>
         spec_selectionState (fst (handleDateClick today d s)) = AwaitingCheckOut"
  using assms by (simp add: handleDateClick_def isBefore_def spec_selectionState_def)

theorem third_click_restarts_witness:
  "checkInDate \<lparr>selectedPropertyId = Some 1, currentDate = 0, checkInDate = Some 10,
      checkOutDate = Some 13,
      availableRooms = [\<lparr>room_id = 5, room_roomNumber = ''101'', room_roomType = ''Deluxe'',
                         room_pricePerNight = ''2500''\<rparr>],
      selectedRoomId = Some 5, loadingRooms = False, showGuestForm = True\<rparr> = Some 10 \<and>
   (10::int) \<le> 20 \<and>
   handleDateClick 10 20
     \<lparr>selectedPropertyId = Some 1, currentDate = 0, checkInDate = Some 10,
      checkOutDate = Some 13,
      availableRooms = [\<lparr>room_id = 5, room_roomNumber = ''101'', room_roomType = ''Deluxe'',
                         room_pricePerNight = ''2500''\<rparr>],
      selectedRoomId = Some 5, loadingRooms = False, showGuestForm = True\<rparr>
   = (\<lparr>selectedPropertyId = Some 1, currentDate = 0, checkInDate = Some 20,
       checkOutDate = None, availableRooms = [], selectedRoomId = None,
       loadingRooms = False, showGuestForm = False\<rparr>, [])"
  using third_click_restarts
    [of "\<lparr>selectedPropertyId = Some 1, currentDate = 0, checkInDate = Some 10,
      checkOutDate = Some 13,
      availableRooms = [\<lparr>room_id = 5, room_roomNumber = ''101'', room_roomType = ''Deluxe'',
                         room_pricePerNight = ''2500''\<rparr>],
      selectedRoomId = Some 5, loadingRooms = False, showGuestForm = True\<rparr>" 10 13 10 20]
  by simp

section \<open>Submission of the guest form\<close>

text \<open>
  C8. When the property, the check-in, the check-out or the chosen room is unset,
  \<^verbatim>\<open>onSubmit\<close> leaves the state as it is and only shows the missing-information toast:
  it does not call the mutation, so no creation request is sent.
\<close>

theorem submit_refused_when_incomplete:
  assumes "selectedPropertyId s = None \<or> checkInDate s = None \<or> checkOutDate s = None \<or>
           selectedRoomId s = None"
  shows "onSubmit d s = (s, [Toast MissingInformation])"
  using assms by (auto simp add: onSubmit_def split: option.splits)

theorem submit_refused_when_incomplete_witness:
  "selectedRoomId \<lparr>selectedPropertyId = Some 1, currentDate = 0, checkInDate = Some 10,
      checkOutDate = Some 13, availableRooms = [], selectedRoomId = None,
      loadingRooms = False, showGuestForm = True\<rparr> = None \<and>
   onSubmit \<lparr>guestName = ''Asha Rao'', guestPhone = ''9876543210'', guestEmail = Some [],
              numberOfGuests = Num 2, priceQuoted = None, advanceAmount = None,
              specialRequests = Some []\<rparr>
     \<lparr>selectedPropertyId = Some 1, currentDate = 0, checkInDate = Some 10,
      checkOutDate = Some 13, availableRooms = [], selectedRoomId = None,
      loadingRooms = False, showGuestForm = True\<rparr>
   = (\<lparr>selectedPropertyId = Some 1, currentDate = 0, checkInDate = Some 10,
       checkOutDate = Some 13, availableRooms = [], selectedRoomId = None,
       loadingRooms = False, showGuestForm = True\<rparr>, [Toast MissingInformation])"
  using submit_refused_when_incomplete
    [of "\<lparr>selectedPropertyId = Some 1, currentDate = 0, checkInDate = Some 10,
      checkOutDate = Some 13, availableRooms = [], selectedRoomId = None,
      loadingRooms = False, showGuestForm = True\<rparr>"
      "\<lparr>guestName = ''Asha Rao'', guestPhone = ''9876543210'', guestEmail = Some [],
              numberOfGuests = Num 2, priceQuoted = None, advanceAmount = None,
              specialRequests = Some []\<rparr>"]
  by simp

section \<open>The date range invariant\<close>

lemma DateRange_inv_iff:
  "DateRange_inv s \<longleftrightarrow>
     (\<forall>ci co. checkInDate s = Some ci \<longrightarrow> checkOutDate s = Some co \<longrightarrow> ci < co)"
  by (simp add: DateRange_inv_def split: option.splits)

lemma handleDateClick_inv:
  "DateRange_inv s \<Longrightarrow> DateRange_inv (fst (handleDateClick today d s))"
  by (auto simp add: handleDateClick_def checkAvailability_def DateRange_inv_iff
      split: option.splits)

lemma checkAvailability_settled_inv:
  "DateRange_inv s \<Longrightarrow> DateRange_inv (fst (checkAvailability_settled r s))"
  by (cases r) (simp_all add: checkAvailability_settled_def DateRange_inv_iff)

lemma onSubmit_state: "fst (onSubmit d s) = s"
  by (simp add: onSubmit_def split: option.splits)

lemma onSuccess_inv: "DateRange_inv (fst (onSuccess s))"
  by (simp add: onSuccess_def DateRange_inv_iff)

lemma onError_state: "fst (onError m s) = s"
  by (simp add: onError_def)

lemma onValueChange_inv: "DateRange_inv (onValueChange v s)"
  by (simp add: onValueChange_def DateRange_inv_iff)

lemma handleRoomSelect_inv: "DateRange_inv s \<Longrightarrow> DateRange_inv (handleRoomSelect r s)"
  by (simp add: handleRoomSelect_def DateRange_inv_iff)

lemma ui_commit: "ui (commit r y) = fst r"
  by (simp add: commit_def)

lemma step_inv:
  assumes "DateRange_inv (ui y)" and "step email e y = Some y'"
  shows "DateRange_inv (ui y')"
proof (cases e)
  case (PropertyChange v)
  with assms show ?thesis by (auto simp: onValueChange_inv)
next
  case (MonthNav d)
  with assms show ?thesis by (auto simp: DateRange_inv_iff split: if_splits)
next
  case (DateClick today d)
  with assms show ?thesis by (auto simp: ui_commit handleDateClick_inv split: if_splits)
next
  case (RoomSelect r)
  with assms show ?thesis by (auto simp: handleRoomSelect_inv split: if_splits)
next
  case (Submit d)
  with assms show ?thesis by (auto simp: ui_commit onSubmit_state split: if_splits)
next
  case (AvailabilitySettled i r)
  with assms show ?thesis
    by (auto simp: ui_commit checkAvailability_settled_inv split: if_splits)
next
  case MutationSuccess
  with assms show ?thesis by (auto simp: ui_commit onSuccess_inv split: if_splits)
next
  case (MutationError m)
  with assms show ?thesis by (auto simp: ui_commit onError_state split: if_splits)
qed

lemma run_inv:
  "DateRange_inv (ui y) \<Longrightarrow> run email es y = Some y' \<Longrightarrow> DateRange_inv (ui y')"
proof (induction es arbitrary: y)
  case Nil
  then show ?case by simp
next
  case (Cons e es)
  then obtain y1 where s: "step email e y = Some y1" and r: "run email es y1 = Some y'"
    by (auto split: option.splits)
  from step_inv [OF Cons.prems(1) s] Cons.IH r show ?case by blast
qed

lemma start_inv: "DateRange_inv (ui (start now))"
  by (simp add: start_def initial_def DateRange_inv_iff)

lemmas eval_defs = start_def initial_def onValueChange_def calendarRendered_def commit_def
  handleDateClick_def isBefore_def checkAvailability_def checkAvailability_settled_def

text \<open>
  C7. Whenever the check-in and the check-out are both present, the check-out is later
  than the check-in: this holds in every state a session reaches from the initial state,
  and every event (a date click, a change of month, a property change, a room
  selection, a submission, an availability request that settles, a creation that
  settles) keeps it.
\<close>

theorem DateRange_inv_always:
  "(run email es (start now) = Some y \<longrightarrow> DateRange_inv (ui y)) \<and>
   (DateRange_inv (ui y0) \<and> step email e y0 = Some y1 \<longrightarrow> DateRange_inv (ui y1))"
  using run_inv [OF start_inv] step_inv by blast

theorem DateRange_inv_always_witness:
  "map_option (DateRange_inv \<circ> ui)
     (run (\<lambda>x. True) [PropertyChange 1, DateClick 0 10, DateClick 0 13] (start 0)) = Some True \<and>
   map_option (DateRange_inv \<circ> ui)
     (step (\<lambda>x. True) (DateClick 0 20)
        ((start 0)\<lparr>ui := (initial 0)\<lparr>selectedPropertyId := Some 1, checkInDate := Some 10,
                                      checkOutDate := Some 13\<rparr>\<rparr>)) = Some True"
proof -
  let ?es = "[PropertyChange 1, DateClick 0 10, DateClick 0 13]"
  let ?reached = "\<lparr>ui = \<lparr>selectedPropertyId = Some 1, currentDate = 0, checkInDate = Some 10,
                checkOutDate = Some 13, availableRooms = [], selectedRoomId = None,
                loadingRooms = True, showGuestForm = False\<rparr>,
           inflight = [(Some 1, 10, 13)], pendingMutations = 0,
           history = [Fetch (Some 1) 10 13]\<rparr>"
  let ?before = "(start 0)\<lparr>ui := (initial 0)\<lparr>selectedPropertyId := Some 1, checkInDate := Some 10,
                                      checkOutDate := Some 13\<rparr>\<rparr>"
  let ?after = "\<lparr>ui = \<lparr>selectedPropertyId = Some 1, currentDate = 0, checkInDate = Some 20,
                checkOutDate = None, availableRooms = [], selectedRoomId = None,
                loadingRooms = False, showGuestForm = False\<rparr>,
           inflight = [], pendingMutations = 0, history = []\<rparr>"
  have r: "run (\<lambda>x. True) ?es (start 0) = Some ?reached"
    by (simp add: eval_defs)
  have i: "DateRange_inv (ui ?before)"
    by (simp add: DateRange_inv_def)
  have s: "step (\<lambda>x. True) (DateClick 0 20) ?before = Some ?after"
    by (simp add: eval_defs)
  have "DateRange_inv (ui ?reached) \<and> DateRange_inv (ui ?after)"
    using DateRange_inv_always [of "\<lambda>x. True" ?es 0 ?reached ?before "DateClick 0 20" ?after] r i s
    by blast
  then show ?thesis
    unfolding r s by simp
qed

section \<open>The availability request\<close>

lemma handleDateClick_effects:
  "snd (handleDateClick today d s) = [] \<or>
   snd (handleDateClick today d s) = [Toast InvalidDate] \<or>
   (\<exists>ci. snd (handleDateClick today d s) = [Fetch (selectedPropertyId s) ci d])"
  by (simp add: handleDateClick_def checkAvailability_def split: option.splits)

lemma handleDateClick_no_undefined_fetch:
  "truthy (selectedPropertyId s) \<Longrightarrow> Fetch None ci co \<notin> set (snd (handleDateClick today d s))"
  using handleDateClick_effects [of today d s] by auto

lemma onSubmit_no_fetch: "Fetch p ci co \<notin> set (snd (onSubmit d s))"
  by (simp add: onSubmit_def split: option.splits)

lemma settled_no_fetch: "Fetch p ci co \<notin> set (snd (checkAvailability_settled r s))"
  by (cases r) (simp_all add: checkAvailability_settled_def)

lemma onSuccess_no_fetch: "Fetch p ci co \<notin> set (snd (onSuccess s))"
  by (simp add: onSuccess_def)

lemma onError_no_fetch: "Fetch p ci co \<notin> set (snd (onError m s))"
  by (simp add: onError_def)

lemma history_commit: "history (commit r y) = history y @ snd r"
  by (simp add: commit_def)

lemma step_no_undefined_fetch:
  assumes "Fetch None ci co \<notin> set (history y)" and "step email e y = Some y'"
  shows "Fetch None ci co \<notin> set (history y')"
proof (cases e)
  case (DateClick today d)
  with assms show ?thesis
    by (auto simp: history_commit calendarRendered_def handleDateClick_no_undefined_fetch
        split: if_splits)
next
  case (Submit d)
  with assms show ?thesis by (auto simp: history_commit onSubmit_no_fetch split: if_splits)
next
  case (AvailabilitySettled i r)
  with assms show ?thesis by (auto simp: history_commit settled_no_fetch split: if_splits)
next
  case MutationSuccess
  with assms show ?thesis by (auto simp: history_commit onSuccess_no_fetch split: if_splits)
next
  case (MutationError m)
  with assms show ?thesis by (auto simp: history_commit onError_no_fetch split: if_splits)
qed (use assms in \<open>auto split: if_splits\<close>)

lemma run_no_undefined_fetch:
  "Fetch None ci co \<notin> set (history y) \<Longrightarrow> run email es y = Some y' \<Longrightarrow>
   Fetch None ci co \<notin> set (history y')"
proof (induction es arbitrary: y)
  case Nil
  then show ?case by simp
next
  case (Cons e es)
  then obtain y1 where s: "step email e y = Some y1" and r: "run email es y1 = Some y'"
    by (auto split: option.splits)
  from step_no_undefined_fetch [OF Cons.prems(1) s] Cons.IH r show ?case by blast
qed

lemma step_property_stays:
  assumes "selectedPropertyId (ui y) \<noteq> None" and "step email e y = Some y'"
  shows "selectedPropertyId (ui y') \<noteq> None"
  using assms
  by (cases e)
    (auto simp: commit_def onValueChange_def handleDateClick_def checkAvailability_def
      handleRoomSelect_def onSubmit_def checkAvailability_settled_def onSuccess_def onError_def
      split: if_splits option.splits response.splits)

text \<open>
  The handler alone would send the request without a property: this is what the
  non-null assertion hides, and what the rendering condition of the calendar excludes.
\<close>

lemma handleDateClick_without_property:
  "snd (handleDateClick 0 13 ((initial 0)\<lparr>checkInDate := Some 10\<rparr>)) = [Fetch None 10 13]"
  by (simp add: handleDateClick_def isBefore_def checkAvailability_def initial_def)

text \<open>
  C10. No session of the page sends an availability request whose property is
  undefined. The day buttons exist only while the selected property is truthy, so the
  second-click branch reads a defined \<^verbatim>\<open>selectedPropertyId\<close>; and no event makes a
  defined \<^verbatim>\<open>selectedPropertyId\<close> undefined again.
\<close>

theorem query_property_defined:
  "(run email es (start now) = Some y \<longrightarrow> Fetch None ci co \<notin> set (history y)) \<and>
   (selectedPropertyId (ui y0) \<noteq> None \<and> step email e y0 = Some y1
      \<longrightarrow> selectedPropertyId (ui y1) \<noteq> None)"
proof -
  have "Fetch None ci co \<notin> set (history (start now))"
    by (simp add: start_def)
  then have "run email es (start now) = Some y \<longrightarrow> Fetch None ci co \<notin> set (history y)"
    using run_no_undefined_fetch by blast
  moreover have "selectedPropertyId (ui y0) \<noteq> None \<and> step email e y0 = Some y1
      \<longrightarrow> selectedPropertyId (ui y1) \<noteq> None"
    using step_property_stays by blast
  ultimately show ?thesis by blast
qed

theorem query_property_defined_witness:
  "map_option history
     (run (\<lambda>x. True) [PropertyChange 1, DateClick 0 10, DateClick 0 13] (start 0))
     = Some [Fetch (Some 1) 10 13] \<and>
   map_option (\<lambda>y. Fetch None 10 13 \<in> set (history y))
     (run (\<lambda>x. True) [PropertyChange 1, DateClick 0 10, DateClick 0 13] (start 0))
     = Some False \<and>
   map_option (\<lambda>y. selectedPropertyId (ui y) = None)
     (step (\<lambda>x. True) (PropertyChange 2)
        ((start 0)\<lparr>ui := (initial 0)\<lparr>selectedPropertyId := Some 1\<rparr>\<rparr>)) = Some False"
proof -
  let ?es = "[PropertyChange 1, DateClick 0 10, DateClick 0 13]"
  let ?reached = "\<lparr>ui = \<lparr>selectedPropertyId = Some 1, currentDate = 0, checkInDate = Some 10,
                checkOutDate = Some 13, availableRooms = [], selectedRoomId = None,
                loadingRooms = True, showGuestForm = False\<rparr>,
           inflight = [(Some 1, 10, 13)], pendingMutations = 0,
           history = [Fetch (Some 1) 10 13]\<rparr>"
  let ?before = "(start 0)\<lparr>ui := (initial 0)\<lparr>selectedPropertyId := Some 1\<rparr>\<rparr>"
  let ?after = "(start 0)\<lparr>ui := (initial 0)\<lparr>selectedPropertyId := Some 2\<rparr>\<rparr>"
  have r: "run (\<lambda>x. True) ?es (start 0) = Some ?reached"
    by (simp add: eval_defs)
  have i: "selectedPropertyId (ui ?before) \<noteq> None"
    by simp
  have s: "step (\<lambda>x. True) (PropertyChange 2) ?before = Some ?after"
    by (simp add: eval_defs)
  have "Fetch None 10 13 \<notin> set (history ?reached) \<and> selectedPropertyId (ui ?after) \<noteq> None"
    using query_property_defined [of "\<lambda>x. True" ?es 0 ?reached 10 13 ?before "PropertyChange 2" ?after] r i s
    by blast
  then show ?thesis
    unfolding r s by simp
qed

text \<open>
  C3, as the specification has it: while a request is outstanding no new completed
  range is accepted, and a result that has been superseded is dropped when it arrives.
  The page does neither. In the session below the request for days 10 to 13 is still in
  flight, with the loading flag up, when two more clicks complete the range 20 to 25 and
  send a second request; the second request settles first with room 107, and then the
  first one settles with room 105, which becomes the room list shown for the range 20
  to 25.
\<close>

theorem stale_result_overwrites_counterexample:
  "map_option inflight
     (run (\<lambda>x. True) [PropertyChange 1, DateClick 0 10, DateClick 0 13] (start 0))
     = Some [(Some 1, 10, 13)] \<and>
   map_option (loadingRooms \<circ> ui)
     (run (\<lambda>x. True) [PropertyChange 1, DateClick 0 10, DateClick 0 13] (start 0))
     = Some True \<and>
   map_option (spec_selectionState \<circ> ui)
     (run (\<lambda>x. True) [PropertyChange 1, DateClick 0 10, DateClick 0 13,
                         DateClick 0 20, DateClick 0 25] (start 0))
     = Some RangeComplete \<and>
   map_option inflight
     (run (\<lambda>x. True) [PropertyChange 1, DateClick 0 10, DateClick 0 13,
                         DateClick 0 20, DateClick 0 25] (start 0))
     = Some [(Some 1, 10, 13), (Some 1, 20, 25)] \<and>
   map_option ui
     (run (\<lambda>x. True)
        [PropertyChange 1, DateClick 0 10, DateClick 0 13, DateClick 0 20, DateClick 0 25,
         AvailabilitySettled 1 (RoomsOk [\<lparr>room_id = 7, room_roomNumber = ''107'',
            room_roomType = ''Suite'', room_pricePerNight = ''4000''\<rparr>]),
         AvailabilitySettled 0 (RoomsOk [\<lparr>room_id = 5, room_roomNumber = ''105'',
            room_roomType = ''Deluxe'', room_pricePerNight = ''2500''\<rparr>])] (start 0))
     = Some \<lparr>selectedPropertyId = Some 1, currentDate = 0, checkInDate = Some 20,
              checkOutDate = Some 25,
              availableRooms = [\<lparr>room_id = 5, room_roomNumber = ''105'',
                 room_roomType = ''Deluxe'', room_pricePerNight = ''2500''\<rparr>],
              selectedRoomId = None, loadingRooms = False, showGuestForm = False\<rparr>"
  by (simp add: eval_defs spec_selectionState_def)

lemma completing_click:
  "checkInDate s = Some ci \<Longrightarrow> checkOutDate s = None \<Longrightarrow> today \<le> d \<Longrightarrow> ci < d \<Longrightarrow>
   handleDateClick today d s =
     (s\<lparr>checkOutDate := Some d, loadingRooms := True\<rparr>, [Fetch (selectedPropertyId s) ci d])"
  by (simp add: handleDateClick_def isBefore_def checkAvailability_def)

lemma click_on_complete_range:
  "checkInDate s = Some ci \<Longrightarrow> checkOutDate s = Some co \<Longrightarrow>
   handleDateClick today d s =
     (if d < today then s
      else s\<lparr>checkInDate := Some d, checkOutDate := None, availableRooms := [],
             selectedRoomId := None, showGuestForm := False\<rparr>, [])"
  by (simp add: handleDateClick_def isBefore_def)

lemma step_flag:
  "map_option (\<lambda>y'. y'\<lparr>ui := (ui y')\<lparr>loadingRooms := c\<rparr>\<rparr>)
     (step email e (y\<lparr>ui := (ui y)\<lparr>loadingRooms := b\<rparr>\<rparr>)) =
   map_option (\<lambda>y'. y'\<lparr>ui := (ui y')\<lparr>loadingRooms := c\<rparr>\<rparr>) (step email e y)"
proof (cases e)
  case (DateClick today d)
  then show ?thesis
    by (simp add: calendarRendered_def commit_def handleDateClick_def checkAvailability_def
        split: option.splits)
next
  case (Submit d)
  then show ?thesis
    by (simp add: commit_def onSubmit_def split: option.splits)
next
  case (AvailabilitySettled i r)
  then show ?thesis
    by (cases r) (simp_all add: commit_def checkAvailability_settled_def)
next
  case (PropertyChange v)
  then show ?thesis by (simp add: onValueChange_def)
next
  case (MonthNav d)
  then show ?thesis by (simp add: calendarRendered_def)
next
  case (RoomSelect r)
  then show ?thesis by (simp add: roomButtonRendered_def handleRoomSelect_def)
next
  case MutationSuccess
  then show ?thesis by (simp add: commit_def onSuccess_def)
next
  case (MutationError m)
  then show ?thesis by (simp add: commit_def onError_def)
qed


lemma completing_step:
  "calendarRendered (ui y) \<Longrightarrow> checkInDate (ui y) = Some ci \<Longrightarrow> checkOutDate (ui y) = None \<Longrightarrow>
   today \<le> d \<Longrightarrow> ci < d \<Longrightarrow>
   step email (DateClick today d) y =
     Some (y\<lparr>ui := (ui y)\<lparr>checkOutDate := Some d, loadingRooms := True\<rparr>,
             inflight := inflight y @ [(selectedPropertyId (ui y), ci, d)],
             pendingMutations := pendingMutations y,
             history := history y @ [Fetch (selectedPropertyId (ui y)) ci d]\<rparr>)"
  by (simp add: completing_click commit_def)

text \<open>
  C3, amended to what the page does. The click that completes a range raises the
  loading flag and sends the request, which is then in flight. While both dates stay
  set, a further date click never completes a range: it is ignored when the day is past
  and otherwise restarts the selection, which is what the specification calls
  superseding the outstanding request. Neither a handler nor a rendering condition reads
  the loading flag: every event is offered or not, and has the same effects and the same
  resulting state up to the flag, whether the flag is up or down. So after such a
  restart (or a property change) a new range is completed, and a second request sent,
  while the first is still in flight. There is no request token and no other guard on
  arrival: whichever request in flight settles, superseded or not, its result replaces
  the room list (the empty list when it failed) and lowers the loading flag. It changes
  no other state variable: the property, the check-in, the check-out, the chosen room
  and the guest form stay as they are.
\<close>

theorem availability_result_applied_unguarded:
  "(checkInDate s = Some ci \<and> checkOutDate s = None \<and> today \<le> d \<and> ci < d \<longrightarrow>
      handleDateClick today d s =
        (s\<lparr>checkOutDate := Some d, loadingRooms := True\<rparr>,
         [Fetch (selectedPropertyId s) ci d])) \<and>
   (calendarRendered (ui y) \<and> checkInDate (ui y) = Some ci \<and> checkOutDate (ui y) = None \<and>
    today \<le> d \<and> ci < d \<longrightarrow>
      step email (DateClick today d) y =
        Some (y\<lparr>ui := (ui y)\<lparr>checkOutDate := Some d, loadingRooms := True\<rparr>,
                inflight := inflight y @ [(selectedPropertyId (ui y), ci, d)],
                pendingMutations := pendingMutations y,
                history := history y @ [Fetch (selectedPropertyId (ui y)) ci d]\<rparr>)) \<and>
   (checkInDate s = Some ci \<and> checkOutDate s = Some co \<longrightarrow>
      handleDateClick today d s =
        (if d < today then s
         else s\<lparr>checkInDate := Some d, checkOutDate := None, availableRooms := [],
                selectedRoomId := None, showGuestForm := False\<rparr>, [])) \<and>
   map_option (\<lambda>y'. y'\<lparr>ui := (ui y')\<lparr>loadingRooms := c\<rparr>\<rparr>)
     (step email e (y\<lparr>ui := (ui y)\<lparr>loadingRooms := b\<rparr>\<rparr>)) =
   map_option (\<lambda>y'. y'\<lparr>ui := (ui y')\<lparr>loadingRooms := c\<rparr>\<rparr>) (step email e y) \<and>
   (i < length (inflight y) \<longrightarrow>
      map_option ui (step email (AvailabilitySettled i r) y) =
        Some ((ui y)\<lparr>availableRooms := (case r of RoomsOk rooms \<Rightarrow> rooms | Failed \<Rightarrow> []),
                      loadingRooms := False\<rparr>)) \<and>
   snd (handleDateClick today d (s\<lparr>loadingRooms := b\<rparr>)) = snd (handleDateClick today d s) \<and>
   (fst (handleDateClick today d (s\<lparr>loadingRooms := b\<rparr>)))\<lparr>loadingRooms := c\<rparr> =
     (fst (handleDateClick today d s))\<lparr>loadingRooms := c\<rparr>"
proof -
  have settle: "i < length (inflight y) \<longrightarrow>
      map_option ui (step email (AvailabilitySettled i r) y) =
        Some ((ui y)\<lparr>availableRooms := (case r of RoomsOk rooms \<Rightarrow> rooms | Failed \<Rightarrow> []),
                      loadingRooms := False\<rparr>)"
    by (cases r) (simp_all add: commit_def checkAvailability_settled_def)
  have click: "snd (handleDateClick today d (s\<lparr>loadingRooms := b\<rparr>)) = snd (handleDateClick today d s) \<and>
     (fst (handleDateClick today d (s\<lparr>loadingRooms := b\<rparr>)))\<lparr>loadingRooms := c\<rparr> =
       (fst (handleDateClick today d s))\<lparr>loadingRooms := c\<rparr>"
    by (simp add: handleDateClick_def checkAvailability_def split: option.splits)
  have complete: "checkInDate s = Some ci \<and> checkOutDate s = None \<and> today \<le> d \<and> ci < d \<longrightarrow>
      handleDateClick today d s =
        (s\<lparr>checkOutDate := Some d, loadingRooms := True\<rparr>,
         [Fetch (selectedPropertyId s) ci d])"
    using completing_click by blast
  have sent: "calendarRendered (ui y) \<and> checkInDate (ui y) = Some ci \<and> checkOutDate (ui y) = None \<and>
    today \<le> d \<and> ci < d \<longrightarrow>
      step email (DateClick today d) y =
        Some (y\<lparr>ui := (ui y)\<lparr>checkOutDate := Some d, loadingRooms := True\<rparr>,
                inflight := inflight y @ [(selectedPropertyId (ui y), ci, d)],
                pendingMutations := pendingMutations y,
                history := history y @ [Fetch (selectedPropertyId (ui y)) ci d]\<rparr>)"
    using completing_step by blast
  have restart: "checkInDate s = Some ci \<and> checkOutDate s = Some co \<longrightarrow>
      handleDateClick today d s =
        (if d < today then s
         else s\<lparr>checkInDate := Some d, checkOutDate := None, availableRooms := [],
                selectedRoomId := None, showGuestForm := False\<rparr>, [])"
    using click_on_complete_range by blast
  from complete sent restart settle click show ?thesis
    by (simp only: step_flag simp_thms)
qed

theorem availability_result_applied_unguarded_witness:
  "handleDateClick 0 13 ((initial 0)\<lparr>selectedPropertyId := Some 1, checkInDate := Some 10\<rparr>) =
     (\<lparr>selectedPropertyId = Some 1, currentDate = 0, checkInDate = Some 10,
       checkOutDate = Some 13, availableRooms = [], selectedRoomId = None,
       loadingRooms = True, showGuestForm = False\<rparr>, [Fetch (Some 1) 10 13]) \<and>
   handleDateClick 0 20
     \<lparr>selectedPropertyId = Some 1, currentDate = 0, checkInDate = Some 10,
      checkOutDate = Some 13, availableRooms = [], selectedRoomId = None,
      loadingRooms = True, showGuestForm = False\<rparr> =
     (\<lparr>selectedPropertyId = Some 1, currentDate = 0, checkInDate = Some 20,
       checkOutDate = None, availableRooms = [], selectedRoomId = None,
       loadingRooms = True, showGuestForm = False\<rparr>, []) \<and>
   map_option ui
     (step (\<lambda>x. True)
        (AvailabilitySettled 0 (RoomsOk [\<lparr>room_id = 5, room_roomNumber = ''105'',
            room_roomType = ''Deluxe'', room_pricePerNight = ''2500''\<rparr>]))
        \<lparr>ui = \<lparr>selectedPropertyId = Some 1, currentDate = 0, checkInDate = Some 20,
                checkOutDate = Some 25, availableRooms = [], selectedRoomId = None,
                loadingRooms = True, showGuestForm = False\<rparr>,
         inflight = [(Some 1, 10, 13), (Some 1, 20, 25)], pendingMutations = 0,
         history = [Fetch (Some 1) 10 13, Fetch (Some 1) 20 25]\<rparr>)
     = Some \<lparr>selectedPropertyId = Some 1, currentDate = 0, checkInDate = Some 20,
              checkOutDate = Some 25,
              availableRooms = [\<lparr>room_id = 5, room_roomNumber = ''105'',
                 room_roomType = ''Deluxe'', room_pricePerNight = ''2500''\<rparr>],
              selectedRoomId = None, loadingRooms = False, showGuestForm = False\<rparr>"
  using
    availability_result_applied_unguarded
      [where s = "(initial 0)\<lparr>selectedPropertyId := Some 1, checkInDate := Some 10\<rparr>"
         and ci = 10 and today = 0 and d = 13]
    availability_result_applied_unguarded
      [where s = "\<lparr>selectedPropertyId = Some 1, currentDate = 0, checkInDate = Some 10,
                    checkOutDate = Some 13, availableRooms = [], selectedRoomId = None,
                    loadingRooms = True, showGuestForm = False\<rparr>"
         and ci = 10 and co = 13 and today = 0 and d = 20]
    availability_result_applied_unguarded
      [where i = 0 and email = "\<lambda>x. True"
         and y = "\<lparr>ui = \<lparr>selectedPropertyId = Some 1, currentDate = 0, checkInDate = Some 20,
                checkOutDate = Some 25, availableRooms = [], selectedRoomId = None,
                loadingRooms = True, showGuestForm = False\<rparr>,
         inflight = [(Some 1, 10, 13), (Some 1, 20, 25)], pendingMutations = 0,
         history = [Fetch (Some 1) 10 13, Fetch (Some 1) 20 25]\<rparr>"
         and r = "RoomsOk [\<lparr>room_id = 5, room_roomNumber = ''105'',
            room_roomType = ''Deluxe'', room_pricePerNight = ''2500''\<rparr>]"]
  by (simp add: initial_def)

section \<open>Room occupancy\<close>

lemma isRoomOccupied_iff:
  "isRoomOccupied pbs r d \<longleftrightarrow>
     (\<exists>b \<in> set pbs. booking_roomId b = Some r \<and>
        booking_checkInDate b \<le> d \<and> d < booking_checkOutDate b)"
  by (auto simp: isRoomOccupied_def list_ex_iff)

lemma half_open_overlap:
  fixes a b ci co :: int
  shows "(\<exists>d. a \<le> d \<and> d < b \<and> ci \<le> d \<and> d < co) \<longleftrightarrow> (a < b \<and> ci < co \<and> ci < b \<and> a < co)"
proof
  assume "\<exists>d. a \<le> d \<and> d < b \<and> ci \<le> d \<and> d < co"
  then show "a < b \<and> ci < co \<and> ci < b \<and> a < co" by auto
next
  assume h: "a < b \<and> ci < co \<and> ci < b \<and> a < co"
  then have "a \<le> max a ci \<and> max a ci < b \<and> ci \<le> max a ci \<and> max a ci < co" by auto
  then show "\<exists>d. a \<le> d \<and> d < b \<and> ci \<le> d \<and> d < co" by blast
qed

lemma range_occupied_iff:
  "(\<exists>d. a \<le> d \<and> d < b \<and> isRoomOccupied pbs r d) \<longleftrightarrow>
     (\<exists>bk \<in> set pbs. booking_roomId bk = Some r \<and> a < b \<and>
        booking_checkInDate bk < booking_checkOutDate bk \<and>
        booking_checkInDate bk < b \<and> a < booking_checkOutDate bk)"
proof -
  have "(\<exists>d. a \<le> d \<and> d < b \<and> isRoomOccupied pbs r d) \<longleftrightarrow>
        (\<exists>bk \<in> set pbs. booking_roomId bk = Some r \<and>
           (\<exists>d. a \<le> d \<and> d < b \<and> booking_checkInDate bk \<le> d \<and> d < booking_checkOutDate bk))"
    unfolding isRoomOccupied_iff by blast
  then show ?thesis unfolding half_open_overlap by simp
qed

lemma set_propertyBookings:
  "b \<in> set (propertyBookings sel bookings) \<longleftrightarrow>
     truthy sel \<and> b \<in> set bookings \<and> Some (booking_propertyId b) = sel \<and>
     (booking_status b = ''confirmed'' \<or> booking_status b = ''checked-in'')"
  by (simp add: propertyBookings_def)

text \<open>
  C2. On the calendar of the selected property a day \<open>d\<close> counts as occupied for a room
  exactly when some confirmed or checked-in booking of that property for that room has
  \<open>checkIn \<le> d < checkOut\<close>: the interval is half-open and the check-out day is free.
  When the bookings of the room all belong to the selected property, as they do for the
  rooms the page lists, this reads: some confirmed or checked-in booking for that room has
  \<open>checkIn \<le> d < checkOut\<close>.
  Equivalently for a range of days \<open>[a, b)\<close>: it contains an occupied day exactly when
  some such booking, with a non-empty stay, has \<open>checkIn < b\<close> and \<open>a < checkOut\<close>. So a
  reservation from 10 May 2024 to 15 May 2024 occupies a day of the range from 12 May to
  20 May, and no day of the range from 15 May to 20 May or of the range from 1 May to
  10 May.
\<close>

theorem occupancy_half_open:
  "(isRoomOccupied (propertyBookings sel bookings) r d \<longleftrightarrow>
      truthy sel \<and>
      (\<exists>b \<in> set bookings.
          Some (booking_propertyId b) = sel \<and>
          (booking_status b = ''confirmed'' \<or> booking_status b = ''checked-in'') \<and>
          booking_roomId b = Some r \<and>
          booking_checkInDate b \<le> d \<and> d < booking_checkOutDate b)) \<and>
   (p \<noteq> 0 \<and> (\<forall>bk \<in> set bookings. booking_roomId bk = Some r \<longrightarrow> booking_propertyId bk = p) \<longrightarrow>
      (isRoomOccupied (propertyBookings (Some p) bookings) r d \<longleftrightarrow>
         (\<exists>bk \<in> set bookings.
             (booking_status bk = ''confirmed'' \<or> booking_status bk = ''checked-in'') \<and>
             booking_roomId bk = Some r \<and>
             booking_checkInDate bk \<le> d \<and> d < booking_checkOutDate bk))) \<and>
   ((\<exists>d. a \<le> d \<and> d < b \<and> isRoomOccupied pbs r d) \<longleftrightarrow>
      (\<exists>bk \<in> set pbs. booking_roomId bk = Some r \<and> a < b \<and>
          booking_checkInDate bk < booking_checkOutDate bk \<and>
          booking_checkInDate bk < b \<and> a < booking_checkOutDate bk)) \<and>
   (\<exists>d. may2024 12 \<le> d \<and> d < may2024 20 \<and>
      isRoomOccupied (propertyBookings (Some 1)
        [\<lparr>booking_propertyId = 1, booking_roomId = Some 5, booking_status = ''confirmed'',
          booking_checkInDate = may2024 10, booking_checkOutDate = may2024 15\<rparr>]) 5 d) \<and>
   \<not> (\<exists>d. may2024 15 \<le> d \<and> d < may2024 20 \<and>
      isRoomOccupied (propertyBookings (Some 1)
        [\<lparr>booking_propertyId = 1, booking_roomId = Some 5, booking_status = ''confirmed'',
          booking_checkInDate = may2024 10, booking_checkOutDate = may2024 15\<rparr>]) 5 d) \<and>
   \<not> (\<exists>d. may2024 1 \<le> d \<and> d < may2024 10 \<and>
      isRoomOccupied (propertyBookings (Some 1)
        [\<lparr>booking_propertyId = 1, booking_roomId = Some 5, booking_status = ''confirmed'',
          booking_checkInDate = may2024 10, booking_checkOutDate = may2024 15\<rparr>]) 5 d)"
proof -
  have day: "isRoomOccupied (propertyBookings sel bookings) r d \<longleftrightarrow>
      truthy sel \<and>
      (\<exists>b \<in> set bookings.
          Some (booking_propertyId b) = sel \<and>
          (booking_status b = ''confirmed'' \<or> booking_status b = ''checked-in'') \<and>
          booking_roomId b = Some r \<and>
          booking_checkInDate b \<le> d \<and> d < booking_checkOutDate b)"
    unfolding isRoomOccupied_iff Bex_def set_propertyBookings by blast
  have ex: "\<And>x y. (\<exists>d. may2024 x \<le> d \<and> d < may2024 y \<and>
      isRoomOccupied (propertyBookings (Some 1)
        [\<lparr>booking_propertyId = 1, booking_roomId = Some 5, booking_status = ''confirmed'',
          booking_checkInDate = may2024 10, booking_checkOutDate = may2024 15\<rparr>]) 5 d)
      \<longleftrightarrow> (may2024 x < may2024 y \<and> may2024 10 < may2024 y \<and> may2024 x < may2024 15)"
    unfolding range_occupied_iff by (simp add: propertyBookings_def may2024_def)
  have own: "p \<noteq> 0 \<and> (\<forall>bk \<in> set bookings. booking_roomId bk = Some r \<longrightarrow> booking_propertyId bk = p) \<longrightarrow>
      (isRoomOccupied (propertyBookings (Some p) bookings) r d \<longleftrightarrow>
         (\<exists>bk \<in> set bookings.
             (booking_status bk = ''confirmed'' \<or> booking_status bk = ''checked-in'') \<and>
             booking_roomId bk = Some r \<and>
             booking_checkInDate bk \<le> d \<and> d < booking_checkOutDate bk))"
    unfolding isRoomOccupied_iff Bex_def Ball_def set_propertyBookings by auto
  have examples: "(\<exists>d. may2024 12 \<le> d \<and> d < may2024 20 \<and>
      isRoomOccupied (propertyBookings (Some 1)
        [\<lparr>booking_propertyId = 1, booking_roomId = Some 5, booking_status = ''confirmed'',
          booking_checkInDate = may2024 10, booking_checkOutDate = may2024 15\<rparr>]) 5 d) \<and>
   \<not> (\<exists>d. may2024 15 \<le> d \<and> d < may2024 20 \<and>
      isRoomOccupied (propertyBookings (Some 1)
        [\<lparr>booking_propertyId = 1, booking_roomId = Some 5, booking_status = ''confirmed'',
          booking_checkInDate = may2024 10, booking_checkOutDate = may2024 15\<rparr>]) 5 d) \<and>
   \<not> (\<exists>d. may2024 1 \<le> d \<and> d < may2024 10 \<and>
      isRoomOccupied (propertyBookings (Some 1)
        [\<lparr>booking_propertyId = 1, booking_roomId = Some 5, booking_status = ''confirmed'',
          booking_checkInDate = may2024 10, booking_checkOutDate = may2024 15\<rparr>]) 5 d)"
    unfolding ex by (simp add: may2024_def)
  from day own range_occupied_iff [of a b pbs r] examples show ?thesis
    by blast
qed

theorem occupancy_half_open_witness:
  "(1::int) \<noteq> 0 \<and>
   isRoomOccupied (propertyBookings (Some 1)
      [\<lparr>booking_propertyId = 1, booking_roomId = Some 5, booking_status = ''checked-in'',
        booking_checkInDate = may2024 10, booking_checkOutDate = may2024 15\<rparr>]) 5 (may2024 10) \<and>
   isRoomOccupied (propertyBookings (Some 1)
      [\<lparr>booking_propertyId = 1, booking_roomId = Some 5, booking_status = ''checked-in'',
        booking_checkInDate = may2024 10, booking_checkOutDate = may2024 15\<rparr>]) 5 (may2024 14) \<and>
   \<not> isRoomOccupied (propertyBookings (Some 1)
      [\<lparr>booking_propertyId = 1, booking_roomId = Some 5, booking_status = ''checked-in'',
        booking_checkInDate = may2024 10, booking_checkOutDate = may2024 15\<rparr>]) 5 (may2024 15) \<and>
   \<not> isRoomOccupied (propertyBookings (Some 1)
      [\<lparr>booking_propertyId = 1, booking_roomId = Some 5, booking_status = ''cancelled'',
        booking_checkInDate = may2024 10, booking_checkOutDate = may2024 15\<rparr>]) 5 (may2024 12)"
  using
    occupancy_half_open [where sel = "Some 1" and p = 1 and r = 5 and d = "may2024 10" and bookings =
      "[\<lparr>booking_propertyId = 1, booking_roomId = Some 5, booking_status = ''checked-in'',
        booking_checkInDate = may2024 10, booking_checkOutDate = may2024 15\<rparr>]"]
    occupancy_half_open [where sel = "Some 1" and p = 1 and r = 5 and d = "may2024 14" and bookings =
      "[\<lparr>booking_propertyId = 1, booking_roomId = Some 5, booking_status = ''checked-in'',
        booking_checkInDate = may2024 10, booking_checkOutDate = may2024 15\<rparr>]"]
    occupancy_half_open [where sel = "Some 1" and p = 1 and r = 5 and d = "may2024 15" and bookings =
      "[\<lparr>booking_propertyId = 1, booking_roomId = Some 5, booking_status = ''checked-in'',
        booking_checkInDate = may2024 10, booking_checkOutDate = may2024 15\<rparr>]"]
    occupancy_half_open [where sel = "Some 1" and p = 1 and r = 5 and d = "may2024 12" and bookings =
      "[\<lparr>booking_propertyId = 1, booking_roomId = Some 5, booking_status = ''cancelled'',
        booking_checkInDate = may2024 10, booking_checkOutDate = may2024 15\<rparr>]"]
  by (simp add: may2024_def)

section \<open>Validation of the guest form\<close>

lemma enquiryFormSchema_iff:
  "enquiryFormSchema email d \<longleftrightarrow>
     2 \<le> length (guestName d) \<and> 10 \<le> length (guestPhone d) \<and>
     (guestEmail d = None \<or> guestEmail d = Some [] \<or> (\<exists>e. guestEmail d = Some e \<and> email e)) \<and>
     (\<exists>n::int. numberOfGuests d = Num (of_int n) \<and> 1 \<le> n) \<and>
     (priceQuoted d = None \<or> (\<exists>x. priceQuoted d = Some (Num x) \<and> 0 \<le> x)) \<and>
     (advanceAmount d = None \<or> (\<exists>x. advanceAmount d = Some (Num x) \<and> 0 \<le> x))"
proof -
  have guests: "number_int g \<and> number_min 1 g \<longleftrightarrow> (\<exists>n::int. g = Num (of_int n) \<and> 1 \<le> n)" for g
  proof (cases g)
    case NaN
    then show ?thesis by simp
  next
    case (Num x)
    show ?thesis
    proof
      assume "number_int g \<and> number_min 1 g"
      with Num obtain n where "x = of_int n" and "1 \<le> x" by auto
      with Num have "g = Num (of_int n) \<and> 1 \<le> n" by simp
      then show "\<exists>n::int. g = Num (of_int n) \<and> 1 \<le> n" by blast
    next
      assume "\<exists>n::int. g = Num (of_int n) \<and> 1 \<le> n"
      then show "number_int g \<and> number_min 1 g" by auto
    qed
  qed
  have amount: "(case a of None \<Rightarrow> True | Some x \<Rightarrow> number_min 0 x) \<longleftrightarrow>
      (a = None \<or> (\<exists>x. a = Some (Num x) \<and> 0 \<le> x))" for a
  proof (cases a)
    case None
    then show ?thesis by simp
  next
    case (Some v)
    then show ?thesis by (cases v) simp_all
  qed
  have mail: "(case m of None \<Rightarrow> True | Some e \<Rightarrow> email e \<or> e = []) \<longleftrightarrow>
      (m = None \<or> m = Some [] \<or> (\<exists>e. m = Some e \<and> email e))" for m
    by (cases m) auto
  show ?thesis
    unfolding enquiryFormSchema_def string_min_def
    using guests [of "numberOfGuests d"] amount [of "priceQuoted d"] amount [of "advanceAmount d"]
      mail [of "guestEmail d"]
    by blast
qed

lemma digits_imp_length: "10 \<le> spec_digit_count x \<Longrightarrow> string_min 10 x"
  unfolding spec_digit_count_def string_min_def
  using length_filter_le [of "\<lambda>c. c \<in> set ''0123456789''" x] by linarith

text \<open>
  C9. The schema measures the phone number by the length of the string, not by its
  digits: ten letters pass. With a name of two characters or more, an empty address, two
  guests and no amounts, the schema accepts a phone number that has no digit at all,
  although its own message for this field reads \<^verbatim>\<open>Phone number must be at least 10
  digits\<close>. The other conditions of the claim are the ones the schema checks
  (\<open>enquiryFormSchema_iff\<close>), and a phone number with ten digits does pass
  (\<open>digits_imp_length\<close>).
\<close>

theorem phone_of_letters_accepted:
  "enquiryFormSchema (\<lambda>e. False)
     \<lparr>guestName = ''Asha Rao'', guestPhone = ''abcdefghij'', guestEmail = Some [],
      numberOfGuests = Num 2, priceQuoted = None, advanceAmount = None,
      specialRequests = Some []\<rparr> \<and>
   spec_digit_count ''abcdefghij'' = 0"
  by (simp add: enquiryFormSchema_def string_min_def spec_digit_count_def)

end
